theory Spec2Isabelle
  imports Main
begin

section \<open>Python values and exceptions\<close>

text \<open>
  The values that deadoralive.py stores in its dicts: \<open>None\<close>, booleans, integers and
  strings. A dict with string keys is a map from keys to values.
\<close>

datatype pyval = PNone | PBool bool | PInt int | PStr string

type_synonym pydict = "string \<rightharpoonup> pyval"

text \<open>
  The exceptions that can travel through the program. \<open>RequestException\<close> stands for
  \<open>requests.exceptions.RequestException\<close> and all its subclasses (\<open>ConnectionError\<close>,
  \<open>Timeout\<close>, \<open>HTTPError\<close>, ...), carrying \<open>str(err)\<close>; \<open>SocketError\<close> is
  \<open>socket.error\<close> with its \<open>errno\<close> (which may be \<open>None\<close>); \<open>OtherException\<close> is any
  exception that none of the \<open>except\<close> clauses of the program names.
\<close>

datatype exn =
    CouldNotGetResourceIDsError string
  | CouldNotGetURLError string
  | RequestException string
  | SocketError "int option" string
  | KeyError string
  | AssertionError
  | SystemExit string
  | OtherException string

subsection \<open>Formatting\<close>

text \<open>\<open>str\<close> of an integer, as \<open>str.format\<close> prints it: decimal, with a sign when negative.\<close>

definition digit :: "nat \<Rightarrow> char" where
  "digit n = ''0123456789'' ! n"

fun str_nat :: "nat \<Rightarrow> string" where
  "str_nat n = (if n < 10 then [digit n] else str_nat (n div 10) @ [digit (n mod 10)])"

declare str_nat.simps [simp del]

definition str_int :: "int \<Rightarrow> string" where
  "str_int i = (if i < 0 then CHR ''-'' # str_nat (nat (- i)) else str_nat (nat i))"

fun str_pyval :: "pyval \<Rightarrow> string" where
  "str_pyval PNone = ''None''"
| "str_pyval (PBool b) = (if b then ''True'' else ''False'')"
| "str_pyval (PInt i) = str_int i"
| "str_pyval (PStr s) = s"

text \<open>Truth value of an object in an \<open>if\<close>.\<close>

fun truthy :: "pyval \<Rightarrow> bool" where
  "truthy PNone = False"
| "truthy (PBool b) = b"
| "truthy (PInt i) = (i \<noteq> 0)"
| "truthy (PStr s) = (s \<noteq> [])"

text \<open>\<open>d[k]\<close> raises \<open>KeyError\<close> on a missing key; \<open>d.get(k)\<close> gives \<open>None\<close>.\<close>

definition getitem :: "pydict \<Rightarrow> string \<Rightarrow> exn + pyval" where
  "getitem d k = (case d k of None \<Rightarrow> Inl (KeyError k) | Some v \<Rightarrow> Inr v)"

definition dict_get :: "pydict \<Rightarrow> string \<Rightarrow> pyval" where
  "dict_get d k = (case d k of None \<Rightarrow> PNone | Some v \<Rightarrow> v)"

text \<open>
  \<open>x in (True, False)\<close> compares with \<open>==\<close>, under which \<open>1 == True\<close> and \<open>0 == False\<close>.
\<close>

definition in_True_False :: "pyval \<Rightarrow> bool" where
  "in_True_False v = (v = PBool True \<or> v = PBool False \<or> v = PInt 1 \<or> v = PInt 0)"

section \<open>The orchestrator: \<open>get_check_and_report\<close>\<close>

text \<open>
  The four collaborators of the orchestrator, as functions of the state of the world.
  Resource IDs and URLs are strings.
\<close>

type_synonym 'w lister = "string \<Rightarrow> string option \<Rightarrow> 'w \<Rightarrow> (exn + string list) \<times> 'w"
type_synonym 'w resolver = "string \<Rightarrow> string option \<Rightarrow> string \<Rightarrow> 'w \<Rightarrow> (exn + string) \<times> 'w"
type_synonym 'w prober = "string \<Rightarrow> 'w \<Rightarrow> (exn + pydict) \<times> 'w"
type_synonym 'w reporter =
  "string \<Rightarrow> string option \<Rightarrow> string \<Rightarrow> pydict \<Rightarrow> 'w \<Rightarrow> (exn + unit) \<times> 'w"

text \<open>
  \<open>logger.info\<close> is a parameter that changes the state of the world; \<open>_get_logger()\<close>,
  which only configures the logger, is left out. The body of the \<open>for\<close> loop is
  \<open>loop_body\<close>: \<open>Inr ()\<close> means that the loop goes on with the next resource ID (after
  \<open>continue\<close> or at the end of the body), \<open>Inl err\<close> that \<open>err\<close> leaves the loop. Only
  \<open>CouldNotGetURLError\<close> is caught. The three items of \<open>result\<close> are read in the order of
  the source, each raising \<open>KeyError\<close> when the key is missing.
\<close>

definition skipping_message :: "string \<Rightarrow> string" where
  "skipping_message resource_id =
     ''This link checker was not authorized to access resource '' @ resource_id @ '', skipping.''"

definition succeeded_message :: "string \<Rightarrow> string \<Rightarrow> pyval \<Rightarrow> string" where
  "succeeded_message url resource_id status =
     ''Checking URL '' @ url @ '' of resource '' @ resource_id
       @ '' succeeded with status '' @ str_pyval status @ '':''"

definition failed_message :: "string \<Rightarrow> string \<Rightarrow> pyval \<Rightarrow> string" where
  "failed_message url resource_id reason_val =
     ''Checking URL '' @ url @ '' of resource '' @ resource_id
       @ '' failed with error '' @ str_pyval reason_val @ '':''"

definition loop_body ::
  "(string \<Rightarrow> 'w \<Rightarrow> 'w) \<Rightarrow> string \<Rightarrow> string option \<Rightarrow> 'w resolver \<Rightarrow> 'w prober \<Rightarrow> 'w reporter
     \<Rightarrow> string \<Rightarrow> 'w \<Rightarrow> (exn + unit) \<times> 'w" where
  "loop_body logger_info client_site_url apikey get_url_for_id check_url upsert_result
       resource_id w =
     (case get_url_for_id client_site_url apikey resource_id w of
        (Inl err, w1) \<Rightarrow>
          (case err of
             CouldNotGetURLError m \<Rightarrow> (Inr (), logger_info (skipping_message resource_id) w1)
           | _ \<Rightarrow> (Inl err, w1))
      | (Inr url, w1) \<Rightarrow>
          (case check_url url w1 of
             (Inl err, w2) \<Rightarrow> (Inl err, w2)
           | (Inr result, w2) \<Rightarrow>
               (case getitem result ''status'' of
                  Inl err \<Rightarrow> (Inl err, w2)
                | Inr status_val \<Rightarrow>
               (case getitem result ''reason'' of
                  Inl err \<Rightarrow> (Inl err, w2)
                | Inr reason_val \<Rightarrow>
               (case getitem result ''alive'' of
                  Inl err \<Rightarrow> (Inl err, w2)
                | Inr alive_val \<Rightarrow>
                    upsert_result client_site_url apikey resource_id result
                      (logger_info
                         (if truthy alive_val
                          then succeeded_message url resource_id status_val
                          else failed_message url resource_id reason_val) w2))))))"

fun for_resource_ids ::
  "(string \<Rightarrow> 'w \<Rightarrow> 'w) \<Rightarrow> string \<Rightarrow> string option \<Rightarrow> 'w resolver \<Rightarrow> 'w prober \<Rightarrow> 'w reporter
     \<Rightarrow> string list \<Rightarrow> 'w \<Rightarrow> (exn + unit) \<times> 'w" where
  "for_resource_ids logger_info client_site_url apikey get_url_for_id check_url upsert_result
       [] w = (Inr (), w)"
| "for_resource_ids logger_info client_site_url apikey get_url_for_id check_url upsert_result
       (resource_id # resource_ids) w =
     (case loop_body logger_info client_site_url apikey get_url_for_id check_url upsert_result
             resource_id w of
        (Inl err, w1) \<Rightarrow> (Inl err, w1)
      | (Inr _, w1) \<Rightarrow>
          for_resource_ids logger_info client_site_url apikey get_url_for_id check_url
            upsert_result resource_ids w1)"

definition get_check_and_report ::
  "(string \<Rightarrow> 'w \<Rightarrow> 'w) \<Rightarrow> string \<Rightarrow> string option \<Rightarrow> 'w lister \<Rightarrow> 'w resolver \<Rightarrow> 'w prober
     \<Rightarrow> 'w reporter \<Rightarrow> 'w \<Rightarrow> (exn + unit) \<times> 'w" where
  "get_check_and_report logger_info client_site_url apikey get_resource_ids_to_check
       get_url_for_id check_url upsert_result w =
     (case get_resource_ids_to_check client_site_url apikey w of
        (Inl err, w1) \<Rightarrow> (Inl err, w1)
      | (Inr resource_ids, w1) \<Rightarrow>
          for_resource_ids logger_info client_site_url apikey get_url_for_id check_url
            upsert_result resource_ids w1)"

section \<open>The HTTP library\<close>

text \<open>
  A call \<open>requests.get(url, headers=..., params=...)\<close> or \<open>requests.post(...)\<close> is
  described by its arguments; an argument that the call leaves out is the empty dict.
  A response has the three members the program reads: \<open>status_code\<close>, \<open>reason\<close> and
  \<open>json()\<close>, the last of which may raise. The payload type \<open>'a\<close> is what the caller
  expects the body to decode to (a list of resource IDs, a URL).
\<close>

record request =
  req_url :: string
  req_headers :: pydict
  req_params :: pydict

record 'a response =
  status_code :: int
  reason :: string
  json :: "exn + 'a"

text \<open>
  The requests library is not part of the repository. Its two members used here are
  modelled after the library: \<open>Response.raise_for_status()\<close> raises \<open>HTTPError\<close> (a
  \<open>RequestException\<close>) when \<open>400 <= status_code < 600\<close> and returns otherwise, and
  \<open>Response.ok\<close> is true exactly when \<open>raise_for_status()\<close> does not raise.
\<close>

definition http_error_msg :: "'a response \<Rightarrow> string" where
  "http_error_msg r =
     str_int (status_code r)
       @ (if status_code r < 500 then '' Client Error: '' else '' Server Error: '')
       @ reason r"

definition raise_for_status :: "'a response \<Rightarrow> exn + unit" where
  "raise_for_status r =
     (if 400 \<le> status_code r \<and> status_code r < 600
      then Inl (RequestException (http_error_msg r)) else Inr ())"

definition ok :: "'a response \<Rightarrow> bool" where
  "ok r = (case raise_for_status r of Inl _ \<Rightarrow> False | Inr _ \<Rightarrow> True)"

text \<open>
  \<open>dict(Authorization=apikey)\<close>, where \<open>apikey\<close> is a string or \<open>None\<close>. What requests
  makes of the \<open>headers\<close> argument when it sends the request is not modelled.
\<close>

definition apikey_val :: "string option \<Rightarrow> pyval" where
  "apikey_val apikey = (case apikey of None \<Rightarrow> PNone | Some k \<Rightarrow> PStr k)"

definition auth_headers :: "string option \<Rightarrow> pydict" where
  "auth_headers apikey = [''Authorization'' \<mapsto> apikey_val apikey]"

section \<open>The link prober: \<open>check_url\<close>\<close>

text \<open>
  \<open>requests.get\<close> is a parameter: given the request and the state of the world it
  returns a response or raises, and leaves a new state of the world. The \<open>try\<close> block
  ends either normally or with the exception together with \<open>result\<close> as it stood when the
  exception was raised. Only a \<open>RequestException\<close> is caught. The four \<open>assert\<close>
  statements are checked before the result is returned.
\<close>

definition check_url_try ::
  "(request \<Rightarrow> 'w \<Rightarrow> (exn + 'a response) \<times> 'w) \<Rightarrow> string \<Rightarrow> pydict \<Rightarrow> 'w
     \<Rightarrow> ((exn \<times> pydict) + pydict) \<times> 'w" where
  "check_url_try requests_get url result w =
     (case requests_get \<lparr>req_url = url, req_headers = Map.empty, req_params = Map.empty\<rparr> w of
        (Inl err, w1) \<Rightarrow> (Inl (err, result), w1)
      | (Inr response, w1) \<Rightarrow>
          (let result1 = result(''status'' \<mapsto> PInt (status_code response));
               result2 = result1(''reason'' \<mapsto> PStr (reason response))
           in case raise_for_status response of
                Inl err \<Rightarrow> (Inl (err, result2), w1)
              | Inr _ \<Rightarrow> (Inr (result2(''alive'' \<mapsto> PBool True)), w1)))"

definition check_url_except :: "string \<Rightarrow> pydict \<Rightarrow> pydict" where
  "check_url_except err_str result =
     (let result1 = result(''alive'' \<mapsto> PBool False);
          result2 = (if result1 ''reason'' = None
                     then result1(''reason'' \<mapsto> PStr err_str) else result1)
      in if result2 ''status'' = None then result2(''status'' \<mapsto> PNone) else result2)"

definition check_url_asserts :: "pydict \<Rightarrow> exn + pydict" where
  "check_url_asserts result =
     (if result ''url'' = None then Inl AssertionError
      else if \<not> in_True_False (dict_get result ''alive'') then Inl AssertionError
      else if result ''status'' = None then Inl AssertionError
      else if result ''reason'' = None then Inl AssertionError
      else Inr result)"

definition check_url ::
  "(request \<Rightarrow> 'w \<Rightarrow> (exn + 'a response) \<times> 'w) \<Rightarrow> string \<Rightarrow> 'w \<Rightarrow> (exn + pydict) \<times> 'w" where
  "check_url requests_get url w =
     (case check_url_try requests_get url [''url'' \<mapsto> PStr url] w of
        (Inr result, w1) \<Rightarrow> (check_url_asserts result, w1)
      | (Inl (RequestException err_str, result), w1) \<Rightarrow>
          (check_url_asserts (check_url_except err_str result), w1)
      | (Inl (err, result), w1) \<Rightarrow> (Inl err, w1))"

section \<open>The client-site calls\<close>

text \<open>The lister and the resolver that \<open>main\<close> passes to the orchestrator.\<close>

definition get_resources_to_check ::
  "(request \<Rightarrow> 'w \<Rightarrow> (exn + string list response) \<times> 'w) \<Rightarrow> 'w lister" where
  "get_resources_to_check requests_get client_site_url apikey w =
     (let url = client_site_url @ ''deadoralive/get_resources_to_check''
      in case requests_get
                \<lparr>req_url = url, req_headers = auth_headers apikey, req_params = Map.empty\<rparr> w of
           (Inl err, w1) \<Rightarrow> (Inl err, w1)
         | (Inr response, w1) \<Rightarrow>
             if \<not> ok response
             then (Inl (CouldNotGetResourceIDsError
                          (''Couldn't get resource IDs to check: ''
                             @ str_int (status_code response) @ '' '' @ reason response)), w1)
             else (json response, w1))"

definition get_url_for_id ::
  "(request \<Rightarrow> 'w \<Rightarrow> (exn + string response) \<times> 'w) \<Rightarrow> 'w resolver" where
  "get_url_for_id requests_get client_site_url apikey resource_id w =
     (let url = client_site_url @ ''deadoralive/get_url_for_resource_id'';
          params = [''resource_id'' \<mapsto> PStr resource_id]
      in case requests_get
                \<lparr>req_url = url, req_headers = auth_headers apikey, req_params = params\<rparr> w of
           (Inl err, w1) \<Rightarrow> (Inl err, w1)
         | (Inr response, w1) \<Rightarrow>
             if \<not> ok response
             then (Inl (CouldNotGetURLError
                          (''Couldn't get URL for resource '' @ resource_id @ '': ''
                             @ str_int (status_code response) @ '' '' @ reason response)), w1)
             else (json response, w1))"

subsection \<open>The result reporter and the dict it is given\<close>

text \<open>
  \<open>upsert_result\<close> receives a reference to its caller's dict. To tell a change of the
  caller's dict from a change of a copy, dicts live in a store here: a list of dicts, a
  reference being an index into it. \<open>result.copy()\<close> allocates a new dict with the same
  items, \<open>params["resource_id"] = resource_id\<close> updates the dict that \<open>params\<close> refers
  to. The response of \<open>requests.post\<close> is dropped.
\<close>

type_synonym store = "pydict list"

definition dict_copy :: "store \<Rightarrow> nat \<Rightarrow> nat \<times> store" where
  "dict_copy h r = (length h, h @ [h ! r])"

definition dict_setitem :: "store \<Rightarrow> nat \<Rightarrow> string \<Rightarrow> pyval \<Rightarrow> store" where
  "dict_setitem h r k v = h[r := (h ! r)(k \<mapsto> v)]"

definition upsert_result ::
  "(request \<Rightarrow> 'w \<Rightarrow> (exn + 'a response) \<times> 'w) \<Rightarrow> string \<Rightarrow> string option \<Rightarrow> string \<Rightarrow> nat
     \<Rightarrow> store \<Rightarrow> 'w \<Rightarrow> (exn + unit) \<times> store \<times> 'w" where
  "upsert_result requests_post client_site_url apikey resource_id result h w =
     (let url = client_site_url @ ''deadoralive/upsert'';
          (params, h1) = dict_copy h result;
          h2 = dict_setitem h1 params ''resource_id'' (PStr resource_id)
      in case requests_post
                \<lparr>req_url = url, req_headers = auth_headers apikey, req_params = h2 ! params\<rparr> w of
           (Inl err, w1) \<Rightarrow> (Inl err, h2, w1)
         | (Inr response, w1) \<Rightarrow> (Inr (), h2, w1))"

text \<open>
  The reporter as the orchestrator calls it: the dict it passes is the only object in
  the store.
\<close>

definition upsert_result_of_dict ::
  "(request \<Rightarrow> 'w \<Rightarrow> (exn + 'a response) \<times> 'w) \<Rightarrow> 'w reporter" where
  "upsert_result_of_dict requests_post client_site_url apikey resource_id result w =
     (case upsert_result requests_post client_site_url apikey resource_id 0 [result] w of
        (out, h, w1) \<Rightarrow> (out, w1))"

section \<open>The command line: \<open>main\<close>\<close>

text \<open>
  \<open>argparse\<close> is not modelled: \<open>main\<close> starts from the parsed arguments and from
  \<open>sys.argv[0]\<close>. The things \<open>main\<close> reaches outside the program are the fields of
  \<open>env\<close>: \<open>requests.get\<close> as each of its three callers reads the response,
  \<open>requests.post\<close>, the \<open>bind\<close> of the socket (whose creation is taken to succeed) and
  \<open>logger.info\<close>. \<open>sys.exit(msg)\<close> raises \<open>SystemExit\<close>. The \<open>errno\<close> that the source
  compares with is 98, \<open>EADDRINUSE\<close> on Linux.
\<close>

record args =
  arg_url :: string
  arg_apikey :: "string option"
  arg_port :: int

record 'w env =
  requests_get_ids :: "request \<Rightarrow> 'w \<Rightarrow> (exn + string list response) \<times> 'w"
  requests_get_url :: "request \<Rightarrow> 'w \<Rightarrow> (exn + string response) \<times> 'w"
  requests_get_page :: "request \<Rightarrow> 'w \<Rightarrow> (exn + unit response) \<times> 'w"
  requests_post :: "request \<Rightarrow> 'w \<Rightarrow> (exn + unit response) \<times> 'w"
  socket_bind :: "string \<Rightarrow> int \<Rightarrow> 'w \<Rightarrow> (exn + unit) \<times> 'w"
  logger_info :: "string \<Rightarrow> 'w \<Rightarrow> 'w"

fun endswith :: "string \<Rightarrow> string \<Rightarrow> bool" where
  "endswith s suffix =
     (length suffix \<le> length s \<and> drop (length s - length suffix) s = suffix)"

definition with_trailing_slash :: "string \<Rightarrow> string" where
  "with_trailing_slash client_site_url =
     (if \<not> endswith client_site_url ''/'' then client_site_url @ ''/'' else client_site_url)"

definition port_in_use_message :: "int \<Rightarrow> string \<Rightarrow> string" where
  "port_in_use_message port process =
     ''Port '' @ str_int port @ '' is already in use.'' @ [CHR 0x0A]
       @ ''Is there another instance of '' @ process @ '' already running?'' @ [CHR 0x0A]
       @ ''To run multiple instances of '' @ process @ '' at once use the ''
       @ ''--port <num> option.''"

definition main :: "'w env \<Rightarrow> string \<Rightarrow> args \<Rightarrow> 'w \<Rightarrow> (exn + unit) \<times> 'w" where
  "main env argv0 parsed_args w =
     (let client_site_url = with_trailing_slash (arg_url parsed_args);
          apikey = arg_apikey parsed_args;
          port = arg_port parsed_args
      in case socket_bind env ''localhost'' port w of
           (Inl err, w1) \<Rightarrow>
             (case err of
                SocketError errno strerror \<Rightarrow>
                  if errno = Some 98
                  then (Inl (SystemExit (port_in_use_message port argv0)), w1)
                  else (Inl err, w1)
              | _ \<Rightarrow> (Inl err, w1))
         | (Inr _, w1) \<Rightarrow>
             get_check_and_report (logger_info env) client_site_url apikey
               (get_resources_to_check (requests_get_ids env))
               (get_url_for_id (requests_get_url env))
               (check_url (requests_get_page env))
               (upsert_result_of_dict (requests_post env)) w1)"

section \<open>Observing a run\<close>

text \<open>
  What a run does is observed the way the tests of the repository observe it, with
  recording stand-ins: each wraps a function, behaves like it, and appends the call (its
  arguments and, for a collaborator, what it returned or raised) to a list kept beside the
  state of the world.
\<close>

datatype event =
    HttpGet request
  | HttpPost request
  | SocketBind string int
  | LogInfo string
  | ListCall string "string option" "exn + string list"
  | ResolveCall string "string option" string "exn + string"
  | ProbeCall string "exn + pydict"
  | ReportCall string "string option" string pydict "exn + unit"

definition rec_get ::
  "(request \<Rightarrow> 'w \<Rightarrow> 'r \<times> 'w) \<Rightarrow> request \<Rightarrow> 'w \<times> event list \<Rightarrow> 'r \<times> 'w \<times> event list" where
  "rec_get f req s = (case f req (fst s) of (out, w1) \<Rightarrow> (out, w1, snd s @ [HttpGet req]))"

definition rec_post ::
  "(request \<Rightarrow> 'w \<Rightarrow> 'r \<times> 'w) \<Rightarrow> request \<Rightarrow> 'w \<times> event list \<Rightarrow> 'r \<times> 'w \<times> event list" where
  "rec_post f req s = (case f req (fst s) of (out, w1) \<Rightarrow> (out, w1, snd s @ [HttpPost req]))"

definition rec_bind ::
  "(string \<Rightarrow> int \<Rightarrow> 'w \<Rightarrow> 'r \<times> 'w) \<Rightarrow> string \<Rightarrow> int \<Rightarrow> 'w \<times> event list
     \<Rightarrow> 'r \<times> 'w \<times> event list" where
  "rec_bind f host port s =
     (case f host port (fst s) of (out, w1) \<Rightarrow> (out, w1, snd s @ [SocketBind host port]))"

definition rec_log ::
  "(string \<Rightarrow> 'w \<Rightarrow> 'w) \<Rightarrow> string \<Rightarrow> 'w \<times> event list \<Rightarrow> 'w \<times> event list" where
  "rec_log f msg s = (f msg (fst s), snd s @ [LogInfo msg])"

definition rec_lister :: "'w lister \<Rightarrow> ('w \<times> event list) lister" where
  "rec_lister f url apikey s =
     (case f url apikey (fst s) of
        (out, w1) \<Rightarrow> (out, w1, snd s @ [ListCall url apikey out]))"

definition rec_resolver :: "'w resolver \<Rightarrow> ('w \<times> event list) resolver" where
  "rec_resolver f url apikey resource_id s =
     (case f url apikey resource_id (fst s) of
        (out, w1) \<Rightarrow> (out, w1, snd s @ [ResolveCall url apikey resource_id out]))"

definition rec_prober :: "'w prober \<Rightarrow> ('w \<times> event list) prober" where
  "rec_prober f url s =
     (case f url (fst s) of (out, w1) \<Rightarrow> (out, w1, snd s @ [ProbeCall url out]))"

definition rec_reporter :: "'w reporter \<Rightarrow> ('w \<times> event list) reporter" where
  "rec_reporter f url apikey resource_id result s =
     (case f url apikey resource_id result (fst s) of
        (out, w1) \<Rightarrow> (out, w1, snd s @ [ReportCall url apikey resource_id result out]))"

definition recording :: "'w env \<Rightarrow> ('w \<times> event list) env" where
  "recording env =
     \<lparr>requests_get_ids = rec_get (requests_get_ids env),
      requests_get_url = rec_get (requests_get_url env),
      requests_get_page = rec_get (requests_get_page env),
      requests_post = rec_post (requests_post env),
      socket_bind = rec_bind (socket_bind env),
      logger_info = rec_log (logger_info env)\<rparr>"

text \<open>The calls of one kind in a list of events, in order.\<close>

fun resolve_call :: "event \<Rightarrow> (string \<times> string option \<times> string) list" where
  "resolve_call (ResolveCall url apikey resource_id out) = [(url, apikey, resource_id)]"
| "resolve_call _ = []"

fun resolved_url :: "event \<Rightarrow> string list" where
  "resolved_url (ResolveCall url apikey resource_id (Inr u)) = [u]"
| "resolved_url _ = []"

fun resolve_failure :: "event \<Rightarrow> (string \<times> exn) list" where
  "resolve_failure (ResolveCall url apikey resource_id (Inl err)) = [(resource_id, err)]"
| "resolve_failure _ = []"

fun probe_call :: "event \<Rightarrow> string list" where
  "probe_call (ProbeCall url out) = [url]"
| "probe_call _ = []"

fun probe_result :: "event \<Rightarrow> pydict list" where
  "probe_result (ProbeCall url (Inr result)) = [result]"
| "probe_result _ = []"

fun report_call :: "event \<Rightarrow> (string \<times> string option \<times> string \<times> pydict) list" where
  "report_call (ReportCall url apikey resource_id result out) =
     [(url, apikey, resource_id, result)]"
| "report_call _ = []"

definition resolve_calls :: "event list \<Rightarrow> (string \<times> string option \<times> string) list" where
  "resolve_calls tr = concat (map resolve_call tr)"

definition resolved_urls :: "event list \<Rightarrow> string list" where
  "resolved_urls tr = concat (map resolved_url tr)"

definition resolve_failures :: "event list \<Rightarrow> (string \<times> exn) list" where
  "resolve_failures tr = concat (map resolve_failure tr)"

definition probe_calls :: "event list \<Rightarrow> string list" where
  "probe_calls tr = concat (map probe_call tr)"

definition probe_results :: "event list \<Rightarrow> pydict list" where
  "probe_results tr = concat (map probe_result tr)"

definition report_calls ::
  "event list \<Rightarrow> (string \<times> string option \<times> string \<times> pydict) list" where
  "report_calls tr = concat (map report_call tr)"

subsection \<open>Stand-ins with fixed behaviour\<close>

text \<open>
  An HTTP function that answers every request with the same response, one that always
  raises, a logger that leaves the world alone, the collaborators of
  \<open>test_get_check_and_report\<close>, and a \<open>bind\<close> that succeeds and one that raises.
\<close>

definition responds :: "'a response \<Rightarrow> request \<Rightarrow> 'w \<Rightarrow> (exn + 'a response) \<times> 'w" where
  "responds r req w = (Inr r, w)"

definition raises :: "exn \<Rightarrow> request \<Rightarrow> 'w \<Rightarrow> (exn + 'a response) \<times> 'w" where
  "raises err req w = (Inl err, w)"

definition no_log :: "string \<Rightarrow> 'w \<Rightarrow> 'w" where
  "no_log msg w = w"

definition test_lister :: "unit lister" where
  "test_lister url apikey w = (Inr [''resource_id_1'', ''resource_id_2'', ''resource_id_3''], w)"

definition test_resolver :: "unit resolver" where
  "test_resolver url apikey resource_id w =
     (if resource_id = ''resource_id_1'' then (Inr ''url_1'', w)
      else if resource_id = ''resource_id_2'' then (Inr ''url_2'', w)
      else if resource_id = ''resource_id_3'' then (Inr ''url_3'', w)
      else (Inl (KeyError resource_id), w))"

definition test_alive :: "string \<Rightarrow> pydict" where
  "test_alive url =
     [''alive'' \<mapsto> PBool True, ''status'' \<mapsto> PInt 200, ''reason'' \<mapsto> PStr ''OK'',
      ''url'' \<mapsto> PStr url]"

definition test_dead :: "string \<Rightarrow> pydict" where
  "test_dead url =
     [''alive'' \<mapsto> PBool False, ''status'' \<mapsto> PInt 500,
      ''reason'' \<mapsto> PStr ''Internal Server Error'', ''url'' \<mapsto> PStr url]"

definition test_prober :: "unit prober" where
  "test_prober url w =
     (if url = ''url_1'' \<or> url = ''url_3'' then (Inr (test_alive url), w)
      else (Inr (test_dead url), w))"

definition test_reporter :: "unit reporter" where
  "test_reporter url apikey resource_id result w = (Inr (), w)"


definition bind_fails :: "exn \<Rightarrow> string \<Rightarrow> int \<Rightarrow> 'w \<Rightarrow> (exn + unit) \<times> 'w" where
  "bind_fails err host port w = (Inl err, w)"

text \<open>
  The trace that \<open>test_get_check_and_report\<close> expects, with the log lines of the run
  between the calls.
\<close>

definition test_trace :: "event list" where
  "test_trace =
     [ListCall ''http://demo.ckan.org'' (Some ''foo'')
        (Inr [''resource_id_1'', ''resource_id_2'', ''resource_id_3'']),
      ResolveCall ''http://demo.ckan.org'' (Some ''foo'') ''resource_id_1'' (Inr ''url_1''),
      ProbeCall ''url_1'' (Inr (test_alive ''url_1'')),
      LogInfo ''Checking URL url_1 of resource resource_id_1 succeeded with status 200:'',
      ReportCall ''http://demo.ckan.org'' (Some ''foo'') ''resource_id_1'' (test_alive ''url_1'')
        (Inr ()),
      ResolveCall ''http://demo.ckan.org'' (Some ''foo'') ''resource_id_2'' (Inr ''url_2''),
      ProbeCall ''url_2'' (Inr (test_dead ''url_2'')),
      LogInfo (''Checking URL url_2 of resource resource_id_2 failed with error ''
                 @ ''Internal Server Error:''),
      ReportCall ''http://demo.ckan.org'' (Some ''foo'') ''resource_id_2'' (test_dead ''url_2'')
        (Inr ()),
      ResolveCall ''http://demo.ckan.org'' (Some ''foo'') ''resource_id_3'' (Inr ''url_3''),
      ProbeCall ''url_3'' (Inr (test_alive ''url_3'')),
      LogInfo ''Checking URL url_3 of resource resource_id_3 succeeded with status 200:'',
      ReportCall ''http://demo.ckan.org'' (Some ''foo'') ''resource_id_3'' (test_alive ''url_3'')
        (Inr ())]"

text \<open>The trace of a run that the first call of the reporter ends with an exception.\<close>

definition aborted_trace :: "event list" where
  "aborted_trace =
     [ListCall ''http://demo.ckan.org'' (Some ''foo'')
        (Inr [''resource_id_1'', ''resource_id_2'', ''resource_id_3'']),
      ResolveCall ''http://demo.ckan.org'' (Some ''foo'') ''resource_id_1'' (Inr ''url_1''),
      ProbeCall ''url_1'' (Inr (test_alive ''url_1'')),
      LogInfo ''Checking URL url_1 of resource resource_id_1 succeeded with status 200:'',
      ReportCall ''http://demo.ckan.org'' (Some ''foo'') ''resource_id_1'' (test_alive ''url_1'')
        (Inl (RequestException ''Connection refused''))]"

text \<open>
  A client site that answers 403 to the resolver, one that answers 500 to the lister, and
  a machine with no network at all, whose \<open>bind\<close> is given.
\<close>

definition forbidden :: "request \<Rightarrow> unit \<Rightarrow> (exn + string response) \<times> unit" where
  "forbidden = responds \<lparr>status_code = 403, reason = ''Forbidden'',
                          json = Inl (OtherException ''No JSON object could be decoded'')\<rparr>"

definition server_error :: "request \<Rightarrow> unit \<Rightarrow> (exn + string list response) \<times> unit" where
  "server_error = responds \<lparr>status_code = 500, reason = ''Internal Server Error'',
                             json = Inl (OtherException ''No JSON object could be decoded'')\<rparr>"

definition offline_env :: "(string \<Rightarrow> int \<Rightarrow> unit \<Rightarrow> (exn + unit) \<times> unit) \<Rightarrow> unit env" where
  "offline_env bind =
     \<lparr>requests_get_ids = raises (RequestException ''Connection refused''),
      requests_get_url = raises (RequestException ''Connection refused''),
      requests_get_page = raises (RequestException ''Connection refused''),
      requests_post = raises (RequestException ''Connection refused''),
      socket_bind = bind,
      logger_info = no_log\<rparr>"

subsection \<open>Notions of the specification\<close>

text \<open>
  The specification calls a status code a success when it is a 2xx code. The program
  never computes this; it is defined here to compare it with what the program does.
\<close>

definition success_2xx :: "int \<Rightarrow> bool" where
  "success_2xx code = (200 \<le> code \<and> code < 300)"

text \<open>The exceptions that \<open>except requests.exceptions.RequestException\<close> catches.\<close>

fun is_request_exception :: "exn \<Rightarrow> bool" where
  "is_request_exception (RequestException msg) = True"
| "is_request_exception _ = False"

text \<open>
  What the specification asks of the calls in a run over \<open>ids\<close>: the resolver is called
  once per ID, in order, with the base URL and the credential; the prober is called with
  the URLs that the resolver returned; the reporter is called with each ID and the result
  that the prober returned for it.
\<close>

definition once_per_id :: "string \<Rightarrow> string option \<Rightarrow> string list \<Rightarrow> event list \<Rightarrow> bool" where
  "once_per_id url apikey ids evs =
     (resolve_calls evs = map (\<lambda>rid. (url, apikey, rid)) ids \<and>
      length (resolved_urls evs) = length ids \<and>
      probe_calls evs = resolved_urls evs \<and>
      length (probe_results evs) = length ids \<and>
      report_calls evs =
        map (\<lambda>(rid, result). (url, apikey, rid, result)) (zip ids (probe_results evs)))"

section \<open>Properties of \<open>check_url\<close>\<close>

text \<open>
  The result of \<open>check_url\<close> in closed form, by the outcome of \<open>requests.get\<close>: a response,
  a \<open>RequestException\<close>, any other exception.
\<close>

lemma check_url_response:
  assumes "requests_get \<lparr>req_url = url, req_headers = Map.empty, req_params = Map.empty\<rparr> w
             = (Inr response, w1)"
  shows "check_url requests_get url w =
     (Inr [''url'' \<mapsto> PStr url, ''status'' \<mapsto> PInt (status_code response),
           ''reason'' \<mapsto> PStr (reason response),
           ''alive'' \<mapsto> PBool (\<not> (400 \<le> status_code response \<and> status_code response < 600))],
      w1)"
  using assms
  by (simp add: check_url_def check_url_try_def check_url_except_def check_url_asserts_def
      raise_for_status_def dict_get_def in_True_False_def Let_def)

lemma check_url_request_exception:
  assumes "requests_get \<lparr>req_url = url, req_headers = Map.empty, req_params = Map.empty\<rparr> w
             = (Inl (RequestException msg), w1)"
  shows "check_url requests_get url w =
     (Inr [''url'' \<mapsto> PStr url, ''alive'' \<mapsto> PBool False, ''reason'' \<mapsto> PStr msg,
           ''status'' \<mapsto> PNone], w1)"
  using assms
  by (simp add: check_url_def check_url_try_def check_url_except_def check_url_asserts_def
      raise_for_status_def dict_get_def in_True_False_def Let_def)

lemma check_url_other_exception:
  assumes "requests_get \<lparr>req_url = url, req_headers = Map.empty, req_params = Map.empty\<rparr> w
             = (Inl err, w1)"
    and "\<not> is_request_exception err"
  shows "check_url requests_get url w = (Inl err, w1)"
  using assms
  by (cases err) (simp_all add: check_url_def check_url_try_def)

text \<open>
  C2, as the program has it. When \<open>requests.get\<close> returns a response, the result carries
  the URL, the status code and the reason phrase of the response, and \<open>alive\<close> is true
  exactly when the status code is outside 400..599, the range in which
  \<open>raise_for_status\<close> raises; so every 2xx response is alive, every 4xx and 5xx response is
  dead. When \<open>requests.get\<close> raises a \<open>RequestException\<close>, the result has \<open>alive\<close> false,
  status \<open>None\<close> and the text of the exception as its reason.
\<close>

theorem check_url_classifies:
  "(requests_get \<lparr>req_url = url, req_headers = Map.empty, req_params = Map.empty\<rparr> w
       = (Inr response, w1) \<longrightarrow>
     (\<exists>result. check_url requests_get url w = (Inr result, w1) \<and>
        result ''url'' = Some (PStr url) \<and>
        result ''status'' = Some (PInt (status_code response)) \<and>
        result ''reason'' = Some (PStr (reason response)) \<and>
        result ''alive'' =
          Some (PBool (\<not> (400 \<le> status_code response \<and> status_code response < 600))) \<and>
        (success_2xx (status_code response) \<longrightarrow> result ''alive'' = Some (PBool True)))) \<and>
   (requests_get \<lparr>req_url = url, req_headers = Map.empty, req_params = Map.empty\<rparr> w
       = (Inl (RequestException msg), w1) \<longrightarrow>
     (\<exists>result. check_url requests_get url w = (Inr result, w1) \<and>
        result ''url'' = Some (PStr url) \<and>
        result ''status'' = Some PNone \<and>
        result ''reason'' = Some (PStr msg) \<and>
        result ''alive'' = Some (PBool False)))"
proof (intro conjI impI)
  assume "requests_get \<lparr>req_url = url, req_headers = Map.empty, req_params = Map.empty\<rparr> w
       = (Inr response, w1)"
  with check_url_response [of requests_get url w response w1]
  show "\<exists>result. check_url requests_get url w = (Inr result, w1) \<and>
        result ''url'' = Some (PStr url) \<and>
        result ''status'' = Some (PInt (status_code response)) \<and>
        result ''reason'' = Some (PStr (reason response)) \<and>
        result ''alive'' =
          Some (PBool (\<not> (400 \<le> status_code response \<and> status_code response < 600))) \<and>
        (success_2xx (status_code response) \<longrightarrow> result ''alive'' = Some (PBool True))"
    by (simp add: success_2xx_def)
next
  assume "requests_get \<lparr>req_url = url, req_headers = Map.empty, req_params = Map.empty\<rparr> w
       = (Inl (RequestException msg), w1)"
  with check_url_request_exception [of requests_get url w msg w1]
  show "\<exists>result. check_url requests_get url w = (Inr result, w1) \<and>
        result ''url'' = Some (PStr url) \<and>
        result ''status'' = Some PNone \<and>
        result ''reason'' = Some (PStr msg) \<and>
        result ''alive'' = Some (PBool False)"
    by simp
qed

text \<open>
  The 200 response of \<open>test_check_url_with_200_OK\<close> and the failed request of
  \<open>test_check_url_with_invalid_http\<close>.
\<close>

theorem check_url_classifies_witness:
  "(\<exists>result. check_url (responds \<lparr>status_code = 200, reason = ''OK'', json = Inr ()\<rparr>)
       ''http://just.testing.com/this/is/just/a/test/'' () = (Inr result, ()) \<and>
     result ''url'' = Some (PStr ''http://just.testing.com/this/is/just/a/test/'') \<and>
     result ''status'' = Some (PInt 200) \<and>
     result ''reason'' = Some (PStr ''OK'') \<and>
     result ''alive'' = Some (PBool True)) \<and>
   (\<exists>result. check_url (raises (RequestException ''Oh no invalid HTTP!'')
         :: request \<Rightarrow> unit \<Rightarrow> (exn + unit response) \<times> unit)
       ''http://just.testing.com/this/is/just/a/test/'' () = (Inr result, ()) \<and>
     result ''url'' = Some (PStr ''http://just.testing.com/this/is/just/a/test/'') \<and>
     result ''status'' = Some PNone \<and>
     result ''reason'' = Some (PStr ''Oh no invalid HTTP!'') \<and>
     result ''alive'' = Some (PBool False))"
  using check_url_classifies
    [where requests_get = "responds \<lparr>status_code = 200, reason = ''OK'', json = Inr ()\<rparr>"
       and url = "''http://just.testing.com/this/is/just/a/test/''" and w = "()"
       and response = "\<lparr>status_code = 200, reason = ''OK'', json = Inr ()\<rparr>"
       and ?w1.0 = "()"]
    check_url_classifies
    [where requests_get = "raises (RequestException ''Oh no invalid HTTP!'')
         :: request \<Rightarrow> unit \<Rightarrow> (exn + unit response) \<times> unit"
       and url = "''http://just.testing.com/this/is/just/a/test/''" and w = "()"
       and msg = "''Oh no invalid HTTP!''" and ?w1.0 = "()"]
  by (auto simp: responds_def raises_def success_2xx_def)

text \<open>
  C2 as it is stated fails for a response whose status is neither 2xx nor an error:
  300 is not a success status, and the result is alive.
\<close>

theorem check_url_300_is_alive:
  "\<not> success_2xx 300 \<and>
   check_url (responds \<lparr>status_code = 300, reason = ''Multiple Choices'', json = Inr ()\<rparr>)
       ''http://example.org/'' () =
     (Inr [''url'' \<mapsto> PStr ''http://example.org/'', ''status'' \<mapsto> PInt 300,
           ''reason'' \<mapsto> PStr ''Multiple Choices'', ''alive'' \<mapsto> PBool True], ())"
  by (simp add: success_2xx_def check_url_response [where ?w1.0 = "()"] responds_def)

text \<open>
  C3, as the program has it. Every result that \<open>check_url\<close> returns has exactly the four
  keys \<open>url\<close>, \<open>alive\<close>, \<open>status\<close> and \<open>reason\<close>; \<open>alive\<close> is a boolean; \<open>reason\<close> is a
  string (which may be empty); and \<open>status\<close> is \<open>None\<close> exactly when \<open>requests.get\<close> raised
  instead of returning a response.
\<close>

theorem check_url_result_fields:
  assumes "check_url requests_get url w = (Inr result, w1)"
  shows "dom result = {''url'', ''alive'', ''status'', ''reason''} \<and>
     result ''url'' = Some (PStr url) \<and>
     (result ''alive'' = Some (PBool True) \<or> result ''alive'' = Some (PBool False)) \<and>
     (\<exists>s. result ''reason'' = Some (PStr s)) \<and>
     (\<exists>v. result ''status'' = Some v) \<and>
     (result ''status'' = Some PNone \<longleftrightarrow>
        (\<exists>err. fst (requests_get
                \<lparr>req_url = url, req_headers = Map.empty, req_params = Map.empty\<rparr> w) = Inl err))"
proof -
  obtain out w' where g: "requests_get
      \<lparr>req_url = url, req_headers = Map.empty, req_params = Map.empty\<rparr> w = (out, w')"
    by (cases "requests_get \<lparr>req_url = url, req_headers = Map.empty, req_params = Map.empty\<rparr> w")
  show ?thesis
  proof (cases out)
    case (Inr response)
    with g check_url_response [of requests_get url w response w'] assms
    show ?thesis by auto
  next
    case (Inl err)
    show ?thesis
    proof (cases "is_request_exception err")
      case True
      then obtain msg where "err = RequestException msg" by (cases err) auto
      with g Inl check_url_request_exception [of requests_get url w msg w'] assms
      show ?thesis by auto
    next
      case False
      with g Inl check_url_other_exception [of requests_get url w err w'] assms
      show ?thesis by simp
    qed
  qed
qed

text \<open>The failed request of \<open>test_check_url_with_invalid_http\<close>.\<close>

theorem check_url_result_fields_witness:
  "check_url (raises (RequestException ''Oh no invalid HTTP!''))
       ''http://just.testing.com/this/is/just/a/test/'' () =
     (Inr [''url'' \<mapsto> PStr ''http://just.testing.com/this/is/just/a/test/'',
           ''alive'' \<mapsto> PBool False, ''reason'' \<mapsto> PStr ''Oh no invalid HTTP!'',
           ''status'' \<mapsto> PNone], ()) \<and>
   dom [''url'' \<mapsto> PStr ''http://just.testing.com/this/is/just/a/test/'',
        ''alive'' \<mapsto> PBool False, ''reason'' \<mapsto> PStr ''Oh no invalid HTTP!'',
        ''status'' \<mapsto> PNone] = {''url'', ''alive'', ''status'', ''reason''}"
proof -
  have run: "check_url (raises (RequestException ''Oh no invalid HTTP!''))
       ''http://just.testing.com/this/is/just/a/test/'' () =
     (Inr [''url'' \<mapsto> PStr ''http://just.testing.com/this/is/just/a/test/'',
           ''alive'' \<mapsto> PBool False, ''reason'' \<mapsto> PStr ''Oh no invalid HTTP!'',
           ''status'' \<mapsto> PNone], ())"
    by (simp add: check_url_request_exception [where ?w1.0 = "()"] raises_def)
  from check_url_result_fields [OF run]
  have "dom [''url'' \<mapsto> PStr ''http://just.testing.com/this/is/just/a/test/'',
        ''alive'' \<mapsto> PBool False, ''reason'' \<mapsto> PStr ''Oh no invalid HTTP!'',
        ''status'' \<mapsto> PNone] = {''url'', ''alive'', ''status'', ''reason''}"
    by (rule conjunct1)
  with run show ?thesis by (rule conjI)
qed

text \<open>
  C3 as it is stated fails where it asks for a non-empty reason: the reason phrase of a
  response may be empty, and \<open>check_url\<close> passes it on.
\<close>

theorem check_url_empty_reason:
  "check_url (responds \<lparr>status_code = 200, reason = [], json = Inr ()\<rparr>)
       ''http://example.org/'' () =
     (Inr [''url'' \<mapsto> PStr ''http://example.org/'', ''status'' \<mapsto> PInt 200,
           ''reason'' \<mapsto> PStr [], ''alive'' \<mapsto> PBool True], ())"
  by (simp add: check_url_response [where ?w1.0 = "()"] responds_def)

text \<open>
  When \<open>requests.get\<close> returns a response (with any status) or fails with a
  \<open>RequestException\<close>, \<open>check_url\<close> returns a result and raises nothing.
\<close>

lemma check_url_never_raises:
  assumes "\<forall>err. fst (requests_get
      \<lparr>req_url = url, req_headers = Map.empty, req_params = Map.empty\<rparr> w) = Inl err
      \<longrightarrow> is_request_exception err"
  shows "\<exists>result. fst (check_url requests_get url w) = Inr result"
proof -
  obtain out w' where g: "requests_get
      \<lparr>req_url = url, req_headers = Map.empty, req_params = Map.empty\<rparr> w = (out, w')"
    by (cases "requests_get \<lparr>req_url = url, req_headers = Map.empty, req_params = Map.empty\<rparr> w")
  show ?thesis
  proof (cases out)
    case (Inr response)
    with g check_url_response [of requests_get url w response w']
    show ?thesis by simp
  next
    case (Inl err)
    with g assms have "is_request_exception err" by simp
    then obtain msg where "err = RequestException msg" by (cases err) auto
    with g Inl check_url_request_exception [of requests_get url w msg w']
    show ?thesis by simp
  qed
qed

lemma check_url_never_raises_example:
  "\<exists>result. fst (check_url (raises (RequestException ''Connection refused''))
      ''http://just.testing.com/this/is/just/a/test/'' ()) = Inr result"
  using check_url_never_raises
    [of "raises (RequestException ''Connection refused'')"
        "''http://just.testing.com/this/is/just/a/test/''" "()"]
  by (simp add: raises_def)

text \<open>
  C4. The claim asks that \<open>check_url\<close> never raises, whatever the URL and however the
  request fails. The program does not keep to it: the \<open>except\<close> clause names
  \<open>RequestException\<close> only, so an exception of another class that \<open>requests.get\<close>
  raises (a \<open>ValueError\<close> on a redirect to a malformed location, say) leaves
  \<open>check_url\<close>, and no result is returned.
\<close>

theorem check_url_lets_other_exception_through:
  "check_url (raises (OtherException ''Invalid IPv6 URL'')
       :: request \<Rightarrow> unit \<Rightarrow> (exn + unit response) \<times> unit)
     ''http://example.org/moved'' () = (Inl (OtherException ''Invalid IPv6 URL''), ())"
  by (simp add: check_url_other_exception [where ?w1.0 = "()"] raises_def)

section \<open>Properties of the orchestrator\<close>

lemma str_int_200: "str_int 200 = ''200''"
  by (simp add: str_int_def str_nat.simps digit_def)

lemma str_int_403: "str_int 403 = ''403''"
  by (simp add: str_int_def str_nat.simps digit_def)

lemma str_int_500: "str_int 500 = ''500''"
  by (simp add: str_int_def str_nat.simps digit_def)

lemma calls_append:
  "resolve_calls (xs @ ys) = resolve_calls xs @ resolve_calls ys"
  "resolved_urls (xs @ ys) = resolved_urls xs @ resolved_urls ys"
  "resolve_failures (xs @ ys) = resolve_failures xs @ resolve_failures ys"
  "probe_calls (xs @ ys) = probe_calls xs @ probe_calls ys"
  "probe_results (xs @ ys) = probe_results xs @ probe_results ys"
  "report_calls (xs @ ys) = report_calls xs @ report_calls ys"
  by (simp_all add: resolve_calls_def resolved_urls_def resolve_failures_def probe_calls_def
      probe_results_def report_calls_def)

lemma calls_Nil:
  "resolve_calls [] = []" "resolved_urls [] = []" "resolve_failures [] = []"
  "probe_calls [] = []" "probe_results [] = []" "report_calls [] = []"
  by (simp_all add: resolve_calls_def resolved_urls_def resolve_failures_def probe_calls_def
      probe_results_def report_calls_def)

lemma calls_Cons:
  "resolve_calls (e # es) = resolve_call e @ resolve_calls es"
  "resolved_urls (e # es) = resolved_url e @ resolved_urls es"
  "resolve_failures (e # es) = resolve_failure e @ resolve_failures es"
  "probe_calls (e # es) = probe_call e @ probe_calls es"
  "probe_results (e # es) = probe_result e @ probe_results es"
  "report_calls (e # es) = report_call e @ report_calls es"
  by (simp_all add: resolve_calls_def resolved_urls_def resolve_failures_def probe_calls_def
      probe_results_def report_calls_def)

text \<open>One pass through the body of the loop, by what the resolver does.\<close>

lemma loop_body_skip:
  assumes "R url apikey rid w = (Inl (CouldNotGetURLError m), w1)"
  shows "loop_body (rec_log lg) url apikey (rec_resolver R) (rec_prober P) (rec_reporter U)
           rid (w, tr) =
         (Inr (), lg (skipping_message rid) w1,
          tr @ [ResolveCall url apikey rid (Inl (CouldNotGetURLError m)),
                LogInfo (skipping_message rid)])"
  using assms by (simp add: loop_body_def rec_resolver_def rec_log_def)

text \<open>
  A pass that lets the loop go on either skipped the resource or made all three calls,
  and the reporter returned.
\<close>

lemma loop_body_continues:
  assumes "loop_body (rec_log lg) url apikey (rec_resolver R) (rec_prober P) (rec_reporter U)
             rid (w, tr) = (Inr u, w', tr')"
  shows "(\<exists>m. tr' = tr @ [ResolveCall url apikey rid (Inl (CouldNotGetURLError m)),
                           LogInfo (skipping_message rid)]) \<or>
         (\<exists>v result msg. tr' = tr @ [ResolveCall url apikey rid (Inr v), ProbeCall v (Inr result),
                           LogInfo msg, ReportCall url apikey rid result (Inr ())])"
  using assms
  by (auto simp: loop_body_def rec_resolver_def rec_log_def rec_prober_def rec_reporter_def
      getitem_def split: prod.splits sum.splits exn.splits option.splits if_splits)

lemma once_per_id_Nil: "once_per_id url apikey [] []"
  by (simp add: once_per_id_def calls_Nil)

lemma once_per_id_Cons:
  assumes "once_per_id url apikey ids evs"
  shows "once_per_id url apikey (rid # ids)
           ([ResolveCall url apikey rid (Inr v), ProbeCall v (Inr result), LogInfo msg,
             ReportCall url apikey rid result out] @ evs)"
  using assms by (simp add: once_per_id_def calls_Cons)

lemma once_per_id_listed:
  assumes "once_per_id url apikey ids evs"
  shows "once_per_id url apikey ids (ListCall url apikey out # evs)"
  using assms by (simp add: once_per_id_def calls_Cons)

lemma for_resource_ids_completed:
  assumes "for_resource_ids (rec_log lg) url apikey (rec_resolver R) (rec_prober P)
             (rec_reporter U) ids (w, tr) = (Inr u, w', tr')"
  shows "\<exists>evs. tr' = tr @ evs \<and> (resolve_failures evs = [] \<longrightarrow> once_per_id url apikey ids evs)"
  using assms
proof (induction ids arbitrary: w tr u)
  case Nil
  then show ?case by (simp add: once_per_id_Nil)
next
  case (Cons rid ids)
  obtain out w1 tr1 where body:
    "loop_body (rec_log lg) url apikey (rec_resolver R) (rec_prober P) (rec_reporter U)
       rid (w, tr) = (out, w1, tr1)"
    by (cases "loop_body (rec_log lg) url apikey (rec_resolver R) (rec_prober P)
       (rec_reporter U) rid (w, tr)") auto
  with Cons.prems obtain u1 where out: "out = Inr u1"
    by (cases out) auto
  from Cons.prems body out
  have "for_resource_ids (rec_log lg) url apikey (rec_resolver R) (rec_prober P)
          (rec_reporter U) ids (w1, tr1) = (Inr u, w', tr')"
    by simp
  from Cons.IH [OF this] obtain evs where evs: "tr' = tr1 @ evs"
    and rest: "resolve_failures evs = [] \<longrightarrow> once_per_id url apikey ids evs"
    by blast
  from loop_body_continues [OF body [unfolded out]]
  show ?case
  proof
    assume "\<exists>m. tr1 = tr @ [ResolveCall url apikey rid (Inl (CouldNotGetURLError m)),
                           LogInfo (skipping_message rid)]"
    then obtain m where "tr1 = tr @ [ResolveCall url apikey rid (Inl (CouldNotGetURLError m)),
                           LogInfo (skipping_message rid)]" ..
    with evs have "tr' = tr @ ([ResolveCall url apikey rid (Inl (CouldNotGetURLError m)),
                           LogInfo (skipping_message rid)] @ evs)"
      by simp
    moreover have "resolve_failures ([ResolveCall url apikey rid (Inl (CouldNotGetURLError m)),
                           LogInfo (skipping_message rid)] @ evs) \<noteq> []"
      by (simp add: calls_Cons)
    ultimately show ?thesis by blast
  next
    assume "\<exists>v result msg. tr1 = tr @ [ResolveCall url apikey rid (Inr v),
              ProbeCall v (Inr result), LogInfo msg, ReportCall url apikey rid result (Inr ())]"
    then obtain v result msg where "tr1 = tr @ [ResolveCall url apikey rid (Inr v),
              ProbeCall v (Inr result), LogInfo msg, ReportCall url apikey rid result (Inr ())]"
      by blast
    with evs have "tr' = tr @ ([ResolveCall url apikey rid (Inr v),
              ProbeCall v (Inr result), LogInfo msg, ReportCall url apikey rid result (Inr ())]
              @ evs)"
      by simp
    moreover have "resolve_failures ([ResolveCall url apikey rid (Inr v),
              ProbeCall v (Inr result), LogInfo msg, ReportCall url apikey rid result (Inr ())]
              @ evs) = [] \<longrightarrow>
            once_per_id url apikey (rid # ids) ([ResolveCall url apikey rid (Inr v),
              ProbeCall v (Inr result), LogInfo msg, ReportCall url apikey rid result (Inr ())]
              @ evs)"
      using rest once_per_id_Cons [of url apikey ids evs rid v result msg "Inr ()"]
      by (simp add: calls_Cons)
    ultimately show ?thesis by blast
  qed
qed

lemma test_run:
  "get_check_and_report (rec_log no_log) ''http://demo.ckan.org'' (Some ''foo'')
      (rec_lister test_lister) (rec_resolver test_resolver) (rec_prober test_prober)
      (rec_reporter test_reporter) ((), []) = (Inr (), (), test_trace)"
  by (simp add: get_check_and_report_def loop_body_def rec_lister_def rec_resolver_def
      rec_prober_def rec_reporter_def rec_log_def no_log_def test_lister_def test_resolver_def
      test_prober_def test_reporter_def test_trace_def getitem_def test_alive_def test_dead_def
      succeeded_message_def failed_message_def str_int_200)

text \<open>
  The calls of a run that ends without an exception, in which the lister returned \<open>ids\<close>
  and no call of the resolver failed: the resolver was called exactly once per ID, in
  listing order, with the base URL, the credential and the ID; the prober was called, in
  the same order, with the URLs that the resolver returned; and the reporter was called
  once per ID with that ID and the very result that the prober returned for it, whatever
  its \<open>alive\<close>.
\<close>

lemma get_check_and_report_calls:
  assumes "L url apikey w = (Inr ids, w0)"
    and "get_check_and_report (rec_log lg) url apikey (rec_lister L) (rec_resolver R)
           (rec_prober P) (rec_reporter U) (w, []) = (Inr (), w', tr)"
    and "resolve_failures tr = []"
  shows "resolve_calls tr = map (\<lambda>rid. (url, apikey, rid)) ids \<and>
         length (resolved_urls tr) = length ids \<and>
         probe_calls tr = resolved_urls tr \<and>
         length (probe_results tr) = length ids \<and>
         report_calls tr =
           map (\<lambda>(rid, result). (url, apikey, rid, result)) (zip ids (probe_results tr))"
proof -
  from assms(1,2)
  have "for_resource_ids (rec_log lg) url apikey (rec_resolver R) (rec_prober P)
          (rec_reporter U) ids (w0, [ListCall url apikey (Inr ids)]) = (Inr (), w', tr)"
    by (simp add: get_check_and_report_def rec_lister_def)
  from for_resource_ids_completed [OF this]
  obtain evs where tr: "tr = ListCall url apikey (Inr ids) # evs"
    and rest: "resolve_failures evs = [] \<longrightarrow> once_per_id url apikey ids evs"
    by auto
  from assms(3) tr have "resolve_failures evs = []"
    by (simp add: calls_Cons)
  with rest have "once_per_id url apikey ids evs" by simp
  then have "once_per_id url apikey ids tr"
    unfolding tr by (rule once_per_id_listed)
  then show ?thesis by (simp add: once_per_id_def)
qed

text \<open>The run of \<open>test_get_check_and_report\<close>, with the calls that the test asserts.\<close>

lemma get_check_and_report_calls_example:
  "get_check_and_report (rec_log no_log) ''http://demo.ckan.org'' (Some ''foo'')
      (rec_lister test_lister) (rec_resolver test_resolver) (rec_prober test_prober)
      (rec_reporter test_reporter) ((), []) = (Inr (), (), test_trace) \<and>
   resolve_calls test_trace =
     [(''http://demo.ckan.org'', Some ''foo'', ''resource_id_1''),
      (''http://demo.ckan.org'', Some ''foo'', ''resource_id_2''),
      (''http://demo.ckan.org'', Some ''foo'', ''resource_id_3'')] \<and>
   probe_calls test_trace = [''url_1'', ''url_2'', ''url_3''] \<and>
   report_calls test_trace =
     [(''http://demo.ckan.org'', Some ''foo'', ''resource_id_1'', test_alive ''url_1''),
      (''http://demo.ckan.org'', Some ''foo'', ''resource_id_2'', test_dead ''url_2''),
      (''http://demo.ckan.org'', Some ''foo'', ''resource_id_3'', test_alive ''url_3'')]"
proof -
  have lister: "test_lister ''http://demo.ckan.org'' (Some ''foo'') () =
      (Inr [''resource_id_1'', ''resource_id_2'', ''resource_id_3''], ())"
    by (simp add: test_lister_def)
  have nofail: "resolve_failures test_trace = []"
    by (simp add: resolve_failures_def test_trace_def)
  have urls: "resolved_urls test_trace = [''url_1'', ''url_2'', ''url_3'']"
    by (simp add: resolved_urls_def test_trace_def)
  have results: "probe_results test_trace =
      [test_alive ''url_1'', test_dead ''url_2'', test_alive ''url_3'']"
    by (simp add: probe_results_def test_trace_def)
  from get_check_and_report_calls [OF lister test_run nofail] urls results test_run
  show ?thesis by simp
qed

text \<open>
  C1. The claim asks that, whenever the lister returns the IDs and every resolution
  succeeds, the resolver, the prober and the reporter are each called exactly once per ID.
  The program does not keep to it when the reporter raises. Here the lister returns three
  IDs, no resolution fails, and \<open>requests.post\<close> in \<open>upsert_result\<close> fails with a
  connection error: nothing catches it, the exception leaves \<open>get_check_and_report\<close>
  after the first report, and the second and third IDs are never resolved, probed or
  reported.
\<close>

theorem reporter_failure_ends_run:
  "get_check_and_report (rec_log no_log) ''http://demo.ckan.org'' (Some ''foo'')
      (rec_lister test_lister) (rec_resolver test_resolver) (rec_prober test_prober)
      (rec_reporter (upsert_result_of_dict
         (raises (RequestException ''Connection refused'')
            :: request \<Rightarrow> unit \<Rightarrow> (exn + unit response) \<times> unit)))
      ((), []) =
     (Inl (RequestException ''Connection refused''), (), aborted_trace) \<and>
   resolve_failures aborted_trace = [] \<and>
   resolve_calls aborted_trace = [(''http://demo.ckan.org'', Some ''foo'', ''resource_id_1'')] \<and>
   \<not> once_per_id ''http://demo.ckan.org'' (Some ''foo'')
       [''resource_id_1'', ''resource_id_2'', ''resource_id_3''] aborted_trace"
proof -
  have "get_check_and_report (rec_log no_log) ''http://demo.ckan.org'' (Some ''foo'')
      (rec_lister test_lister) (rec_resolver test_resolver) (rec_prober test_prober)
      (rec_reporter (upsert_result_of_dict
         (raises (RequestException ''Connection refused'')
            :: request \<Rightarrow> unit \<Rightarrow> (exn + unit response) \<times> unit)))
      ((), []) =
     (Inl (RequestException ''Connection refused''), (), aborted_trace)"
    by (simp add: get_check_and_report_def loop_body_def rec_lister_def rec_resolver_def
        rec_prober_def rec_reporter_def rec_log_def no_log_def test_lister_def test_resolver_def
        test_prober_def getitem_def test_alive_def aborted_trace_def
        succeeded_message_def str_int_200 upsert_result_of_dict_def upsert_result_def
        dict_copy_def dict_setitem_def raises_def Let_def)
  moreover have "resolve_failures aborted_trace = []"
    by (simp add: resolve_failures_def aborted_trace_def)
  moreover have calls: "resolve_calls aborted_trace =
      [(''http://demo.ckan.org'', Some ''foo'', ''resource_id_1'')]"
    by (simp add: resolve_calls_def aborted_trace_def)
  moreover have "\<not> once_per_id ''http://demo.ckan.org'' (Some ''foo'')
       [''resource_id_1'', ''resource_id_2'', ''resource_id_3''] aborted_trace"
    by (simp add: once_per_id_def calls)
  ultimately show ?thesis by simp
qed

text \<open>
  C5. When the resolver raises \<open>CouldNotGetURLError\<close> for a resource ID, the pass of the
  loop for that ID consists of the call of the resolver and one log line that names the
  resource and says that it is skipped: neither the prober nor the reporter is called.
  The loop then goes on with the remaining IDs, and the run ends as the run over the
  remaining IDs ends.
\<close>

theorem resolution_error_skips:
  assumes "R url apikey rid w = (Inl (CouldNotGetURLError m), w1)"
  shows "for_resource_ids (rec_log lg) url apikey (rec_resolver R) (rec_prober P)
           (rec_reporter U) (rid # rest) (w, tr) =
         for_resource_ids (rec_log lg) url apikey (rec_resolver R) (rec_prober P)
           (rec_reporter U) rest
           (lg (''This link checker was not authorized to access resource '' @ rid
                  @ '', skipping.'') w1,
            tr @ [ResolveCall url apikey rid (Inl (CouldNotGetURLError m)),
                  LogInfo (''This link checker was not authorized to access resource '' @ rid
                             @ '', skipping.'')])"
  using assms loop_body_skip [of R url apikey rid w m w1 lg P U tr]
  by (simp add: skipping_message_def)

text \<open>The client site answers 403 Forbidden for the only resource.\<close>

theorem resolution_error_skips_witness:
  "for_resource_ids (rec_log no_log) ''http://demo.ckan.org/'' (Some ''foo'')
      (rec_resolver (get_url_for_id forbidden)) (rec_prober test_prober)
      (rec_reporter test_reporter) [''resource_id_2''] ((), []) =
   (Inr (), (),
    [ResolveCall ''http://demo.ckan.org/'' (Some ''foo'') ''resource_id_2''
       (Inl (CouldNotGetURLError ''Couldn't get URL for resource resource_id_2: 403 Forbidden'')),
     LogInfo ''This link checker was not authorized to access resource resource_id_2, skipping.''])"
proof -
  have "get_url_for_id forbidden ''http://demo.ckan.org/'' (Some ''foo'') ''resource_id_2'' () =
      (Inl (CouldNotGetURLError ''Couldn't get URL for resource resource_id_2: 403 Forbidden''),
       ())"
    by (simp add: get_url_for_id_def forbidden_def responds_def ok_def raise_for_status_def
        str_int_403 Let_def)
  with resolution_error_skips
      [where R = "get_url_for_id forbidden" and url = "''http://demo.ckan.org/''"
         and apikey = "Some ''foo''" and rid = "''resource_id_2''" and w = "()" and ?w1.0 = "()"
         and m = "''Couldn't get URL for resource resource_id_2: 403 Forbidden''"
         and lg = no_log and P = test_prober and U = test_reporter and rest = "[]"
         and tr = "[]"]
  show ?thesis by (simp add: no_log_def)
qed

text \<open>
  When the listing endpoint answers with a status in 400..599 (for which \<open>response.ok\<close>
  is false), \<open>get_resources_to_check\<close> raises \<open>CouldNotGetResourceIDsError\<close> with a
  message that carries the status code and the reason. When the lister raises,
  \<open>get_check_and_report\<close> ends with that exception right after the call of the lister:
  nothing is resolved, probed, reported or logged.
\<close>

lemma listing_failure_aborts:
  "(requests_get \<lparr>req_url = url @ ''deadoralive/get_resources_to_check'',
                   req_headers = auth_headers apikey, req_params = Map.empty\<rparr> w
      = (Inr response, w1) \<and> 400 \<le> status_code response \<and> status_code response < 600 \<longrightarrow>
    get_resources_to_check requests_get url apikey w =
      (Inl (CouldNotGetResourceIDsError
              (''Couldn't get resource IDs to check: '' @ str_int (status_code response)
                 @ '' '' @ reason response)), w1)) \<and>
   (L url apikey w = (Inl err, w1) \<longrightarrow>
    get_check_and_report (rec_log lg) url apikey (rec_lister L) (rec_resolver R)
      (rec_prober P) (rec_reporter U) (w, tr) =
      (Inl err, w1, tr @ [ListCall url apikey (Inl err)]))"
  by (simp add: get_resources_to_check_def ok_def raise_for_status_def Let_def
      get_check_and_report_def rec_lister_def)

text \<open>The client site answers 500 Internal Server Error to the listing request.\<close>

lemma listing_failure_aborts_example:
  "get_check_and_report (rec_log no_log) ''http://demo.ckan.org/'' (Some ''foo'')
      (rec_lister (get_resources_to_check server_error)) (rec_resolver test_resolver)
      (rec_prober test_prober) (rec_reporter test_reporter) ((), []) =
   (Inl (CouldNotGetResourceIDsError
           ''Couldn't get resource IDs to check: 500 Internal Server Error''), (),
    [ListCall ''http://demo.ckan.org/'' (Some ''foo'')
       (Inl (CouldNotGetResourceIDsError
               ''Couldn't get resource IDs to check: 500 Internal Server Error''))])"
proof -
  have "get_resources_to_check server_error ''http://demo.ckan.org/'' (Some ''foo'') () =
      (Inl (CouldNotGetResourceIDsError
              ''Couldn't get resource IDs to check: 500 Internal Server Error''), ())"
    using listing_failure_aborts
      [of server_error "''http://demo.ckan.org/''" "Some ''foo''" "()"
          "\<lparr>status_code = 500, reason = ''Internal Server Error'',
            json = Inl (OtherException ''No JSON object could be decoded'')\<rparr>" "()"]
    by (simp add: server_error_def responds_def str_int_500)
  with listing_failure_aborts
      [where L = "get_resources_to_check server_error" and url = "''http://demo.ckan.org/''"
         and apikey = "Some ''foo''" and w = "()" and ?w1.0 = "()"
         and err = "CouldNotGetResourceIDsError
              ''Couldn't get resource IDs to check: 500 Internal Server Error''"
         and lg = no_log and R = test_resolver and P = test_prober and U = test_reporter
         and tr = "[]"]
  show ?thesis by simp
qed

text \<open>
  C6. The claim asks that a failed listing ends the run and that listing is the only step
  whose failure does. The program does not keep to the second part. Here the listing
  succeeds and \<open>requests.get\<close> in \<open>get_url_for_id\<close> fails with a connection error:
  \<open>get_url_for_id\<close> lets it through instead of raising \<open>CouldNotGetURLError\<close>, the
  orchestrator catches nothing else, and the run ends at the first resource with the
  other two never looked at.
\<close>

theorem resolver_transport_failure_ends_run:
  "get_check_and_report (rec_log no_log) ''http://demo.ckan.org/'' (Some ''foo'')
      (rec_lister test_lister)
      (rec_resolver (get_url_for_id
         (raises (RequestException ''Connection refused'')
            :: request \<Rightarrow> unit \<Rightarrow> (exn + string response) \<times> unit)))
      (rec_prober test_prober) (rec_reporter test_reporter) ((), []) =
   (Inl (RequestException ''Connection refused''), (),
    [ListCall ''http://demo.ckan.org/'' (Some ''foo'')
       (Inr [''resource_id_1'', ''resource_id_2'', ''resource_id_3'']),
     ResolveCall ''http://demo.ckan.org/'' (Some ''foo'') ''resource_id_1''
       (Inl (RequestException ''Connection refused''))])"
  by (simp add: get_check_and_report_def loop_body_def rec_lister_def rec_resolver_def
      test_lister_def get_url_for_id_def raises_def Let_def)

section \<open>Properties of the requests to the client site\<close>





section \<open>Properties of \<open>main\<close>\<close>

lemma str_int_4723: "str_int 4723 = ''4723''"
  by (simp add: str_int_def str_nat.simps digit_def)



text \<open>
  C9. When \<open>bind\<close> raises a \<open>socket.error\<close> with \<open>errno\<close> 98 (address in use), \<open>main\<close>
  exits with a message that names the port, and the \<open>bind\<close> is all that it has done: no
  request is made and nothing is logged. When \<open>bind\<close> raises anything else, \<open>main\<close>
  raises the same exception, again without having done anything else.
\<close>

theorem bind_failure:
  "(socket_bind env ''localhost'' (arg_port a) w = (Inl (SocketError (Some 98) strerror), w1) \<longrightarrow>
    main (recording env) argv0 a (w, []) =
      (Inl (SystemExit
              (''Port '' @ str_int (arg_port a) @ '' is already in use.'' @ [CHR 0x0A]
                 @ ''Is there another instance of '' @ argv0 @ '' already running?''
                 @ [CHR 0x0A]
                 @ ''To run multiple instances of '' @ argv0
                 @ '' at once use the --port <num> option.'')),
       w1, [SocketBind ''localhost'' (arg_port a)])) \<and>
   (socket_bind env ''localhost'' (arg_port a) w = (Inl err, w1) \<and>
    (\<forall>s. err \<noteq> SocketError (Some 98) s) \<longrightarrow>
    main (recording env) argv0 a (w, []) =
      (Inl err, w1, [SocketBind ''localhost'' (arg_port a)]))"
proof (intro conjI impI)
  assume "socket_bind env ''localhost'' (arg_port a) w
            = (Inl (SocketError (Some 98) strerror), w1)"
  then show "main (recording env) argv0 a (w, []) =
      (Inl (SystemExit
              (''Port '' @ str_int (arg_port a) @ '' is already in use.'' @ [CHR 0x0A]
                 @ ''Is there another instance of '' @ argv0 @ '' already running?''
                 @ [CHR 0x0A]
                 @ ''To run multiple instances of '' @ argv0
                 @ '' at once use the --port <num> option.'')),
       w1, [SocketBind ''localhost'' (arg_port a)])"
    by (simp add: main_def recording_def rec_bind_def port_in_use_message_def Let_def)
next
  assume "socket_bind env ''localhost'' (arg_port a) w = (Inl err, w1) \<and>
    (\<forall>s. err \<noteq> SocketError (Some 98) s)"
  then show "main (recording env) argv0 a (w, []) =
      (Inl err, w1, [SocketBind ''localhost'' (arg_port a)])"
    by (cases err) (simp_all add: main_def recording_def rec_bind_def Let_def)
qed

text \<open>
  Port 4723 is in use; and port 80 may not be bound (\<open>errno\<close> 13, permission denied).
\<close>

theorem bind_failure_witness:
  "main (recording (offline_env (bind_fails (SocketError (Some 98) ''Address already in use''))))
      ''deadoralive.py''
      \<lparr>arg_url = ''http://demo.ckan.org'', arg_apikey = None, arg_port = 4723\<rparr> ((), []) =
     (Inl (SystemExit
             (''Port 4723 is already in use.'' @ [CHR 0x0A]
                @ ''Is there another instance of deadoralive.py already running?'' @ [CHR 0x0A]
                @ ''To run multiple instances of deadoralive.py at once use the ''
                @ ''--port <num> option.'')),
      (), [SocketBind ''localhost'' 4723]) \<and>
   main (recording (offline_env (bind_fails (SocketError (Some 13) ''Permission denied''))))
      ''deadoralive.py''
      \<lparr>arg_url = ''http://demo.ckan.org'', arg_apikey = None, arg_port = 80\<rparr> ((), []) =
     (Inl (SocketError (Some 13) ''Permission denied''), (), [SocketBind ''localhost'' 80])"
  using bind_failure
    [where env = "offline_env (bind_fails (SocketError (Some 98) ''Address already in use''))"
       and a = "\<lparr>arg_url = ''http://demo.ckan.org'', arg_apikey = None, arg_port = 4723\<rparr>"
       and w = "()" and ?w1.0 = "()" and strerror = "''Address already in use''"
       and ?argv0.0 = "''deadoralive.py''"]
    bind_failure
    [where env = "offline_env (bind_fails (SocketError (Some 13) ''Permission denied''))"
       and a = "\<lparr>arg_url = ''http://demo.ckan.org'', arg_apikey = None, arg_port = 80\<rparr>"
       and w = "()" and ?w1.0 = "()" and err = "SocketError (Some 13) ''Permission denied''"
       and ?argv0.0 = "''deadoralive.py''"]
  by (simp add: offline_env_def bind_fails_def str_int_4723)

section \<open>Properties of the reporter\<close>

text \<open>
  C10. \<open>upsert_result\<close> leaves the dict that it is given as it was: after the call the
  store is the store from before the call, every dict in it unchanged, followed by one
  new dict, the copy with \<open>resource_id\<close> added.
\<close>

theorem upsert_result_leaves_result:
  assumes "result < length h"
    and "upsert_result post url apikey rid result h w = (out, h', w')"
  shows "h' ! result = h ! result \<and> h' = h @ [(h ! result)(''resource_id'' \<mapsto> PStr rid)]"
  using assms
  by (auto simp: upsert_result_def dict_copy_def dict_setitem_def Let_def nth_append
      split: prod.splits sum.splits)

theorem upsert_result_leaves_result_witness:
  "upsert_result (raises (RequestException ''Connection refused'')
       :: request \<Rightarrow> unit \<Rightarrow> (exn + unit response) \<times> unit)
     ''http://demo.ckan.org/'' None ''resource_id_1'' 0 [test_alive ''url_1''] () =
     (Inl (RequestException ''Connection refused''),
      [test_alive ''url_1'', (test_alive ''url_1'')(''resource_id'' \<mapsto> PStr ''resource_id_1'')],
      ()) \<and>
   [test_alive ''url_1'', (test_alive ''url_1'')(''resource_id'' \<mapsto> PStr ''resource_id_1'')] ! 0
     = [test_alive ''url_1''] ! 0"
proof -
  have len: "0 < length [test_alive ''url_1'']" by simp
  have run: "upsert_result (raises (RequestException ''Connection refused'')
       :: request \<Rightarrow> unit \<Rightarrow> (exn + unit response) \<times> unit)
     ''http://demo.ckan.org/'' None ''resource_id_1'' 0 [test_alive ''url_1''] () =
     (Inl (RequestException ''Connection refused''),
      [test_alive ''url_1'', (test_alive ''url_1'')(''resource_id'' \<mapsto> PStr ''resource_id_1'')],
      ())"
    by (simp add: upsert_result_def dict_copy_def dict_setitem_def raises_def Let_def)
  from upsert_result_leaves_result [OF len run]
  have "[test_alive ''url_1'',
         (test_alive ''url_1'')(''resource_id'' \<mapsto> PStr ''resource_id_1'')] ! 0
     = [test_alive ''url_1''] ! 0"
    by (rule conjunct1)
  with run show ?thesis by (rule conjI)
qed

end
